theory Spec2Isabelle
  imports Main "HOL-Library.Char_ord" "HOL-Library.List_Lexorder" "HOL-Library.Option_ord"
begin

section \<open>Rows and request payloads\<close>

text \<open>
  The route handlers of \<^verbatim>\<open>backend/app/routers\<close> work on ORM rows of the tables
  User, Circle, CircleNews, Followed and UserSchedule. The table declarations
  (\<^verbatim>\<open>app/models.py\<close>) are not part of the sources at hand; the columns are the ones the
  handlers assign and the response schemas of \<^verbatim>\<open>schemas.py\<close> read. A column that a handler
  can assign Python's \<^verbatim>\<open>None\<close> is an \<open>option\<close>. Dates and timestamps are integers
  (day and second counts), Python strings are \<open>string\<close>.
\<close>

type_synonym date = int
type_synonym datetime = int

record user_row =
  u_id :: int
  u_name :: "string option"
  u_email :: "string option"
  u_icon :: "string option"
  u_login_id :: "string option"
  u_login_pass :: "string option"
  u_created_at :: datetime

record circle_row =
  c_id :: int
  c_name :: "string option"
  c_description :: "string option"
  c_followers :: int
  c_image :: "string option"
  c_tags :: "string list option"
  c_sns_links_x :: "string option"
  c_sns_links_instagram :: "string option"
  c_sns_links_line :: "string option"
  c_created_at :: datetime

record news_row =
  n_id :: int
  n_circle_id :: int
  n_title :: string
  n_date :: date
  n_content :: "string option"
  n_has_photo :: bool
  n_photo_url :: "string option"
  n_created_at :: datetime

record followed_row =
  f_id :: int
  f_user_id :: int
  f_circle_id :: int
  f_date :: "date option"
  f_is_admin :: bool

record schedule_row =
  s_id :: int
  s_user_id :: int
  s_circlenews_id :: int
  s_title :: string
  s_start_at :: date
  s_end_at :: date
  s_memo :: "string option"
  s_created_at :: datetime

text \<open>\<^verbatim>\<open>schemas.CircleNewsCreate\<close> and \<^verbatim>\<open>schemas.FollowedCreate\<close>, after validation.\<close>

record CircleNewsCreate =
  p_circle_id :: int
  p_title :: string
  p_date :: date
  p_content :: "string option"
  p_has_photo :: bool
  p_photo_url :: "string option"

record FollowedCreate =
  fc_user_id :: int
  fc_circle_id :: int
  fc_date :: "date option"
  fc_is_admin :: bool

section \<open>The session\<close>

text \<open>
  A request works on a SQLAlchemy session: \<open>committed\<close> is what the database holds,
  \<open>working\<close> is the view of the open transaction. \<^verbatim>\<open>db.add\<close> and \<^verbatim>\<open>db.delete\<close> and attribute
  assignments change \<open>working\<close>; \<^verbatim>\<open>db.commit()\<close> makes it the committed state or raises;
  \<^verbatim>\<open>db.rollback()\<close> discards it. A request starts with both equal. A handler that lets
  an exception escape leaves the session as it is at that point.
\<close>

record database =
  users :: "user_row list"
  circles :: "circle_row list"
  circle_news :: "news_row list"
  followed :: "followed_row list"
  user_schedules :: "schedule_row list"

record session =
  committed :: database
  working :: database

text \<open>
  What the database engine raises. \<open>IntegrityError orig text\<close> is
  \<^verbatim>\<open>sqlalchemy.exc.IntegrityError\<close> with the text of its \<^verbatim>\<open>orig\<close> attribute and of
  \<^verbatim>\<open>str(e)\<close>; \<open>OtherError text\<close> is any other exception.
\<close>

datatype db_exception =
  IntegrityError string string
| OtherError string
| MultipleResultsFound

fun exc_str :: "db_exception \<Rightarrow> string" where
  "exc_str (IntegrityError orig text) = text"
| "exc_str (OtherError text) = text"
| "exc_str MultipleResultsFound =
     ''Multiple rows were found when one or none was required''"

text \<open>
  A handler ends with a value, with an \<^verbatim>\<open>HTTPException(status_code, detail)\<close> it raised
  itself, with the framework's rejection of a request that violates the declared
  parameter or body schema (status 422), or with an exception of the persistence layer
  that no \<^verbatim>\<open>except\<close> clause of the handler caught.
\<close>

datatype error =
  HTTPException nat string
| RequestValidationError
| Unhandled db_exception

text \<open>
  The behaviour of the persistence layer during one request. Which constraints the
  tables declare is decided in \<^verbatim>\<open>models.py\<close> and by the database engine, so whether
  \<^verbatim>\<open>flush\<close>, \<^verbatim>\<open>commit\<close> or the execution of a list query raises is a parameter of every
  handler, as is the clock that fills \<^verbatim>\<open>created_at\<close>. Single-row reads are taken to
  succeed.
\<close>

record engine =
  flush_raises :: "db_exception option"
  commit_raises :: "db_exception option"
  execute_raises :: "db_exception option"
  clock :: datetime

text \<open>
  Generated primary keys: one more than the largest id of the table, 1 for the empty
  table (an integer autoincrement key). A row under construction is a function of the
  id it will get.
\<close>

definition next_id :: "int list \<Rightarrow> int" where
  "next_id ids = foldr max ids 0 + 1"

definition add_row :: "('r \<Rightarrow> int) \<Rightarrow> (int \<Rightarrow> 'r) \<Rightarrow> 'r list \<Rightarrow> 'r list" where
  "add_row getid mk tbl = tbl @ [mk (next_id (map getid tbl))]"

definition add_all :: "('r \<Rightarrow> int) \<Rightarrow> (int \<Rightarrow> 'r) list \<Rightarrow> 'r list \<Rightarrow> 'r list" where
  "add_all getid mks tbl = foldl (\<lambda>t mk. add_row getid mk t) tbl mks"

definition db_commit :: "session \<Rightarrow> session" where
  "db_commit db = db\<lparr>committed := working db\<rparr>"

definition db_rollback :: "session \<Rightarrow> session" where
  "db_rollback db = db\<lparr>working := committed db\<rparr>"

text \<open>\<^verbatim>\<open>Result.scalar_one_or_none()\<close>: no row gives \<^verbatim>\<open>None\<close>, two or more rows raise.\<close>

definition scalar_one_or_none :: "'a list \<Rightarrow> db_exception + 'a option" where
  "scalar_one_or_none rows =
     (case rows of [] \<Rightarrow> Inr None | [x] \<Rightarrow> Inr (Some x) | _ \<Rightarrow> Inl MultipleResultsFound)"

text \<open>Python truthiness of an optional integer and of an optional string.\<close>

definition truthy_int :: "int option \<Rightarrow> bool" where
  "truthy_int v = (case v of None \<Rightarrow> False | Some i \<Rightarrow> i \<noteq> 0)"

definition truthy_str :: "string option \<Rightarrow> bool" where
  "truthy_str v = (case v of None \<Rightarrow> False | Some s \<Rightarrow> s \<noteq> [])"

section \<open>Circle news: \<^verbatim>\<open>routers/circle_news.py\<close>\<close>

definition ensure_circle_exists :: "session \<Rightarrow> int \<Rightarrow> error option" where
  "ensure_circle_exists db circle_id =
     (case scalar_one_or_none
             (map c_id (filter (\<lambda>c. c_id c = circle_id) (circles (working db)))) of
        Inl x \<Rightarrow> Some (Unhandled x)
      | Inr exists \<Rightarrow>
          if \<not> truthy_int exists then Some (HTTPException 404 ''circle not found'')
          else None)"

definition CircleNews :: "CircleNewsCreate \<Rightarrow> datetime \<Rightarrow> int \<Rightarrow> news_row" where
  "CircleNews payload now i =
     \<lparr>n_id = i, n_circle_id = p_circle_id payload, n_title = p_title payload,
      n_date = p_date payload, n_content = p_content payload,
      n_has_photo = p_has_photo payload, n_photo_url = p_photo_url payload,
      n_created_at = now\<rparr>"

definition UserSchedule :: "news_row \<Rightarrow> datetime \<Rightarrow> int \<Rightarrow> int \<Rightarrow> schedule_row" where
  "UserSchedule news now uid i =
     \<lparr>s_id = i, s_user_id = uid, s_circlenews_id = n_id news, s_title = n_title news,
      s_start_at = n_date news, s_end_at = n_date news,
      s_memo = (if truthy_str (n_content news) then n_content news else None),
      s_created_at = now\<rparr>"

definition create_news ::
  "engine \<Rightarrow> int \<Rightarrow> CircleNewsCreate \<Rightarrow> session \<Rightarrow> (error + news_row) \<times> session" where
  "create_news e circle_id payload db =
     (if circle_id \<noteq> p_circle_id payload
      then (Inl (HTTPException 400 ''circle_id mismatch between path and body''), db)
      else
        let w = working db;
            news = CircleNews payload (clock e) (next_id (map n_id (circle_news w)));
            db1 = db\<lparr>working := w\<lparr>circle_news := circle_news w @ [news]\<rparr>\<rparr>
        in case flush_raises e of
             Some x \<Rightarrow> (Inl (Unhandled x), db1)
           | None \<Rightarrow>
               let w1 = working db1;
                   follower_ids =
                     map f_user_id
                       (filter (\<lambda>f. f_circle_id f = n_circle_id news) (followed w1));
                   db2 =
                     (if follower_ids \<noteq> []
                      then db1\<lparr>working := w1\<lparr>user_schedules :=
                             add_all s_id (map (UserSchedule news (clock e)) follower_ids)
                               (user_schedules w1)\<rparr>\<rparr>
                      else db1)
               in case commit_raises e of
                    None \<Rightarrow> (Inr news, db_commit db2)
                  | Some (IntegrityError orig text) \<Rightarrow>
                      (Inl (HTTPException 409 (''unique constraint failed: '' @ orig)),
                       db_rollback db2)
                  | Some x \<Rightarrow>
                      (Inl (HTTPException 500 (''create news failed: '' @ exc_str x)),
                       db_rollback db2))"

text \<open>
  The request body of the news routes before validation: a key of the JSON object is
  absent (\<open>None\<close>) or present. \<^verbatim>\<open>CircleNewsCreate\<close> requires \<^verbatim>\<open>circle_id\<close>, \<^verbatim>\<open>title\<close>
  and \<^verbatim>\<open>date\<close>, bounds the lengths of \<^verbatim>\<open>title\<close> and \<^verbatim>\<open>photo_url\<close>, and fills the
  defaults \<^verbatim>\<open>content = None\<close>, \<^verbatim>\<open>has_photo = False\<close>, \<^verbatim>\<open>photo_url = None\<close>.
\<close>

record CircleNewsBody =
  b_circle_id :: "int option"
  b_title :: "string option"
  b_date :: "date option"
  b_content :: "string option option"
  b_has_photo :: "bool option"
  b_photo_url :: "string option option"

definition validate_CircleNewsCreate :: "CircleNewsBody \<Rightarrow> error + CircleNewsCreate" where
  "validate_CircleNewsCreate b =
     (case (b_circle_id b, b_title b, b_date b) of
        (Some c, Some t, Some d) \<Rightarrow>
          let content = (case b_content b of None \<Rightarrow> None | Some v \<Rightarrow> v);
              has_photo = (case b_has_photo b of None \<Rightarrow> False | Some v \<Rightarrow> v);
              photo_url = (case b_photo_url b of None \<Rightarrow> None | Some v \<Rightarrow> v)
          in if 200 < length t then Inl RequestValidationError
             else if (case photo_url of None \<Rightarrow> False | Some u \<Rightarrow> 300 < length u)
             then Inl RequestValidationError
             else Inr \<lparr>p_circle_id = c, p_title = t, p_date = d, p_content = content,
                       p_has_photo = has_photo, p_photo_url = photo_url\<rparr>
      | _ \<Rightarrow> Inl RequestValidationError)"

definition select_circle_news :: "session \<Rightarrow> int \<Rightarrow> int \<Rightarrow> db_exception + news_row option" where
  "select_circle_news db circle_id news_id =
     scalar_one_or_none
       (filter (\<lambda>n. n_circle_id n = circle_id \<and> n_id n = news_id) (circle_news (working db)))"

definition update_circle_news ::
  "engine \<Rightarrow> int \<Rightarrow> int \<Rightarrow> CircleNewsCreate \<Rightarrow> session \<Rightarrow> (error + news_row) \<times> session" where
  "update_circle_news e circle_id news_id payload db =
     (case ensure_circle_exists db circle_id of
        Some err \<Rightarrow> (Inl err, db)
      | None \<Rightarrow>
         (case select_circle_news db circle_id news_id of
            Inl x \<Rightarrow> (Inl (Unhandled x), db)
          | Inr None \<Rightarrow> (Inl (HTTPException 404 ''circle_news not found''), db)
          | Inr (Some row) \<Rightarrow>
              let row' = row\<lparr>n_title := p_title payload, n_content := p_content payload,
                              n_date := p_date payload, n_has_photo := p_has_photo payload\<rparr>;
                  w = working db;
                  db1 = db\<lparr>working := w\<lparr>circle_news :=
                          map (\<lambda>n. if n_id n = n_id row then row' else n) (circle_news w)\<rparr>\<rparr>
              in case commit_raises e of
                   None \<Rightarrow> (Inr row', db_commit db1)
                 | Some (IntegrityError orig text) \<Rightarrow>
                     (Inl (HTTPException 400 (''integrity error: '' @ orig)), db_rollback db1)
                 | Some x \<Rightarrow>
                     (Inl (HTTPException 400 (''cannot update circle_news: '' @ exc_str x)),
                      db_rollback db1)))"

text \<open>The \<^verbatim>\<open>PUT\<close> route as the client sees it: the body is validated, then handled.\<close>

definition put_circle_news ::
  "engine \<Rightarrow> int \<Rightarrow> int \<Rightarrow> CircleNewsBody \<Rightarrow> session \<Rightarrow> (error + news_row) \<times> session" where
  "put_circle_news e circle_id news_id body db =
     (case validate_CircleNewsCreate body of
        Inl err \<Rightarrow> (Inl err, db)
      | Inr payload \<Rightarrow> update_circle_news e circle_id news_id payload db)"

definition delete_circle_news ::
  "engine \<Rightarrow> int \<Rightarrow> int \<Rightarrow> session \<Rightarrow> (error + unit) \<times> session" where
  "delete_circle_news e circle_id news_id db =
     (case ensure_circle_exists db circle_id of
        Some err \<Rightarrow> (Inl err, db)
      | None \<Rightarrow>
         (case select_circle_news db circle_id news_id of
            Inl x \<Rightarrow> (Inl (Unhandled x), db)
          | Inr None \<Rightarrow> (Inl (HTTPException 404 ''circle_news not found''), db)
          | Inr (Some row) \<Rightarrow>
              let w = working db;
                  db1 = db\<lparr>working := w\<lparr>circle_news :=
                          filter (\<lambda>n. n_id n \<noteq> n_id row) (circle_news w)\<rparr>\<rparr>
              in case commit_raises e of
                   None \<Rightarrow> (Inr (), db_commit db1)
                 | Some x \<Rightarrow>
                     (Inl (HTTPException 400 (''cannot delete circle_news: '' @ exc_str x)),
                      db_rollback db1)))"

section \<open>Follow relationships: \<^verbatim>\<open>routers/followed.py\<close>\<close>

definition Followed :: "FollowedCreate \<Rightarrow> int \<Rightarrow> followed_row" where
  "Followed data i =
     \<lparr>f_id = i, f_user_id = fc_user_id data, f_circle_id = fc_circle_id data,
      f_date = fc_date data, f_is_admin = fc_is_admin data\<rparr>"

definition create_Followed ::
  "engine \<Rightarrow> user_row \<Rightarrow> FollowedCreate \<Rightarrow> session \<Rightarrow> (error + followed_row) \<times> session" where
  "create_Followed e current_user payload db =
     (let data = payload\<lparr>fc_user_id := u_id current_user\<rparr>;
          w = working db
      in case scalar_one_or_none
                (map c_id (filter (\<lambda>c. c_id c = fc_circle_id payload) (circles w))) of
           Inl x \<Rightarrow> (Inl (Unhandled x), db)
         | Inr circle \<Rightarrow>
             if \<not> truthy_int circle then (Inl (HTTPException 404 ''circle not found''), db)
             else
               (case scalar_one_or_none
                       (map f_id (filter (\<lambda>f. f_user_id f = u_id current_user
                                              \<and> f_circle_id f = fc_circle_id payload)
                                    (followed w))) of
                  Inl x \<Rightarrow> (Inl (Unhandled x), db)
                | Inr dup \<Rightarrow>
                    if truthy_int dup then (Inl (HTTPException 409 ''already joined''), db)
                    else
                      let row = Followed data (next_id (map f_id (followed w)));
                          db1 = db\<lparr>working := w\<lparr>followed := followed w @ [row]\<rparr>\<rparr>
                      in case commit_raises e of
                           None \<Rightarrow> (Inr row, db_commit db1)
                         | Some (IntegrityError orig text) \<Rightarrow>
                             (Inl (HTTPException 409 ''integrity error''), db_rollback db1)
                         | Some x \<Rightarrow>
                             (Inl (HTTPException 400
                                    (''cannot create Followed: '' @ exc_str x)),
                              db_rollback db1)))"

definition delete_Followed ::
  "engine \<Rightarrow> int \<Rightarrow> user_row \<Rightarrow> session \<Rightarrow> (error + unit) \<times> session" where
  "delete_Followed e circle_id current_user db =
     (let w = working db
      in case scalar_one_or_none
                (filter (\<lambda>f. f_user_id f = u_id current_user \<and> f_circle_id f = circle_id)
                   (followed w)) of
           Inl x \<Rightarrow> (Inl (Unhandled x), db)
         | Inr None \<Rightarrow> (Inl (HTTPException 404 ''Followed relationship not found''), db)
         | Inr (Some row) \<Rightarrow>
             let db1 = db\<lparr>working := w\<lparr>followed :=
                         filter (\<lambda>f. f_id f \<noteq> f_id row) (followed w)\<rparr>\<rparr>
             in case commit_raises e of
                  None \<Rightarrow> (Inr (), db_commit db1)
                | Some x \<Rightarrow> (Inl (Unhandled x), db1))"

section \<open>Users: \<^verbatim>\<open>routers/users.py\<close>\<close>

text \<open>
  \<^verbatim>\<open>UserCreate\<close> after validation, and \<^verbatim>\<open>UserUpdate\<close>, every field of which is optional:
  \<open>None\<close> is a field the client did not send (left out by
  \<^verbatim>\<open>model_dump(exclude_unset=True)\<close>), \<open>Some v\<close> a field sent with the value \<open>v\<close>, which may
  be \<^verbatim>\<open>null\<close>. A URL is kept as its text, so \<^verbatim>\<open>str(url)\<close> changes nothing. The password
  hash \<^verbatim>\<open>hash_pw\<close> (\<^verbatim>\<open>app/security/security.py\<close>) is a parameter.
\<close>

record UserCreate =
  uc_name :: string
  uc_email :: string
  uc_icon :: "string option"
  uc_login_id :: string
  uc_login_pass :: string

record UserUpdate =
  uu_name :: "string option option"
  uu_email :: "string option option"
  uu_icon :: "string option option"
  uu_login_id :: "string option option"
  uu_login_pass :: "string option option"

text \<open>\<^verbatim>\<open>setattr(row, key, value)\<close> for a key of the dumped payload; an absent key keeps the column.\<close>

definition setattr_opt :: "'a option \<Rightarrow> 'a \<Rightarrow> 'a" where
  "setattr_opt field old = (case field of None \<Rightarrow> old | Some v \<Rightarrow> v)"

text \<open>\<^verbatim>\<open>d.get(key)\<close> on the dumped payload: absent and \<^verbatim>\<open>null\<close> both give \<^verbatim>\<open>None\<close>.\<close>

definition dict_get :: "'a option option \<Rightarrow> 'a option" where
  "dict_get field = (case field of None \<Rightarrow> None | Some v \<Rightarrow> v)"

definition User :: "(string \<Rightarrow> string) \<Rightarrow> UserCreate \<Rightarrow> datetime \<Rightarrow> int \<Rightarrow> user_row" where
  "User hash_pw payload now i =
     \<lparr>u_id = i, u_name = Some (uc_name payload), u_email = Some (uc_email payload),
      u_icon = uc_icon payload, u_login_id = Some (uc_login_id payload),
      u_login_pass = Some (hash_pw (uc_login_pass payload)), u_created_at = now\<rparr>"

definition create_user ::
  "(string \<Rightarrow> string) \<Rightarrow> engine \<Rightarrow> UserCreate \<Rightarrow> session \<Rightarrow> (error + user_row) \<times> session" where
  "create_user hash_pw e payload db =
     (let w = working db;
          user = User hash_pw payload (clock e) (next_id (map u_id (users w)));
          db1 = db\<lparr>working := w\<lparr>users := users w @ [user]\<rparr>\<rparr>
      in case commit_raises e of
           None \<Rightarrow> (Inr user, db_commit db1)
         | Some (IntegrityError orig text) \<Rightarrow>
             (Inl (HTTPException 409 ''email or login id is already exist.''), db_rollback db1)
         | Some x \<Rightarrow> (Inl (Unhandled x), db1))"

definition db_get_user :: "session \<Rightarrow> int \<Rightarrow> user_row option" where
  "db_get_user db user_id = find (\<lambda>u. u_id u = user_id) (users (working db))"

definition update_user ::
  "(string \<Rightarrow> string) \<Rightarrow> engine \<Rightarrow> int \<Rightarrow> UserUpdate \<Rightarrow> session
     \<Rightarrow> (error + user_row) \<times> session" where
  "update_user hash_pw e user_id payload db =
     (case db_get_user db user_id of
        None \<Rightarrow> (Inl (HTTPException 404 ''Cannot find the user''), db)
      | Some user \<Rightarrow>
          if uu_name payload = None \<and> uu_email payload = None \<and> uu_icon payload = None
             \<and> uu_login_id payload = None \<and> uu_login_pass payload = None
          then (Inr user, db)
          else
            let login_pass =
                  (if truthy_str (dict_get (uu_login_pass payload))
                   then map_option (map_option hash_pw) (uu_login_pass payload)
                   else uu_login_pass payload);
                user' = user\<lparr>u_name := setattr_opt (uu_name payload) (u_name user),
                              u_email := setattr_opt (uu_email payload) (u_email user),
                              u_icon := setattr_opt (uu_icon payload) (u_icon user),
                              u_login_id := setattr_opt (uu_login_id payload) (u_login_id user),
                              u_login_pass := setattr_opt login_pass (u_login_pass user)\<rparr>;
                w = working db;
                db1 = db\<lparr>working := w\<lparr>users :=
                        map (\<lambda>u. if u_id u = u_id user then user' else u) (users w)\<rparr>\<rparr>
            in case commit_raises e of
                 None \<Rightarrow> (Inr user', db_commit db1)
               | Some (IntegrityError orig text) \<Rightarrow>
                   (Inl (HTTPException 409 ''email or login_id is already exist''),
                    db_rollback db1)
               | Some x \<Rightarrow>
                   (Inl (HTTPException 500 (''User update failed: '' @ exc_str x)),
                    db_rollback db1))"

definition delete_user :: "engine \<Rightarrow> int \<Rightarrow> session \<Rightarrow> (error + unit) \<times> session" where
  "delete_user e user_id db =
     (case db_get_user db user_id of
        None \<Rightarrow> (Inl (HTTPException 404 ''Cannot find the user''), db)
      | Some user \<Rightarrow>
          let w = working db;
              db1 = db\<lparr>working := w\<lparr>users := filter (\<lambda>u. u_id u \<noteq> u_id user) (users w)\<rparr>\<rparr>
          in case commit_raises e of
               None \<Rightarrow> (Inr (), db_commit db1)
             | Some x \<Rightarrow> (Inl (Unhandled x), db1))"

subsection \<open>The user list\<close>











section \<open>Circles: \<^verbatim>\<open>routers/circles.py\<close>\<close>

record CircleUpdate =
  cu_name :: "string option option"
  cu_description :: "string option option"
  cu_image :: "string option option"
  cu_tags :: "string list option option"
  cu_sns_links_x :: "string option option"
  cu_sns_links_instagram :: "string option option"
  cu_sns_links_line :: "string option option"

definition db_get_circle :: "session \<Rightarrow> int \<Rightarrow> circle_row option" where
  "db_get_circle db circle_id = find (\<lambda>c. c_id c = circle_id) (circles (working db))"

definition update_circle ::
  "engine \<Rightarrow> int \<Rightarrow> CircleUpdate \<Rightarrow> session \<Rightarrow> (error + circle_row) \<times> session" where
  "update_circle e circle_id payload db =
     (case db_get_circle db circle_id of
        None \<Rightarrow> (Inl (HTTPException 404 ''circle not found''), db)
      | Some row \<Rightarrow>
          let row' = row\<lparr>c_name := setattr_opt (cu_name payload) (c_name row),
                          c_description := setattr_opt (cu_description payload) (c_description row),
                          c_image := setattr_opt (cu_image payload) (c_image row),
                          c_tags := setattr_opt (cu_tags payload) (c_tags row),
                          c_sns_links_x := setattr_opt (cu_sns_links_x payload) (c_sns_links_x row),
                          c_sns_links_instagram :=
                            setattr_opt (cu_sns_links_instagram payload) (c_sns_links_instagram row),
                          c_sns_links_line :=
                            setattr_opt (cu_sns_links_line payload) (c_sns_links_line row)\<rparr>;
              w = working db;
              db1 = db\<lparr>working := w\<lparr>circles :=
                      map (\<lambda>c. if c_id c = c_id row then row' else c) (circles w)\<rparr>\<rparr>
          in case commit_raises e of
               None \<Rightarrow> (Inr row', db_commit db1)
             | Some (IntegrityError orig text) \<Rightarrow>
                 (Inl (HTTPException 409 ''circle name already exists''), db_rollback db1)
             | Some x \<Rightarrow>
                 (Inl (HTTPException 500 (''cannot update circle: '' @ exc_str x)),
                  db_rollback db1))"

definition delete_circle :: "engine \<Rightarrow> int \<Rightarrow> session \<Rightarrow> (error + unit) \<times> session" where
  "delete_circle e circle_id db =
     (case db_get_circle db circle_id of
        None \<Rightarrow> (Inl (HTTPException 404 ''circle not found''), db)
      | Some row \<Rightarrow>
          let w = working db;
              db1 = db\<lparr>working := w\<lparr>circles :=
                      filter (\<lambda>c. c_id c \<noteq> c_id row) (circles w)\<rparr>\<rparr>
          in case commit_raises e of
               None \<Rightarrow> (Inr (), db_commit db1)
             | Some x \<Rightarrow>
                 (Inl (HTTPException 400 (''cannot delete circle: '' @ exc_str x)),
                  db_rollback db1))"

section \<open>Requests and invariants\<close>

text \<open>
  Modelled from the spec: the session factory \<^verbatim>\<open>get_db\<close> (\<^verbatim>\<open>app/db.py\<close>) is missing. Each
  request acquires a short-lived transaction scoped to that request (section 5 of the
  specification), so a request starts from the committed state with nothing pending.
\<close>

definition begin_request :: "database \<Rightarrow> session" where
  "begin_request d = \<lparr>committed = d, working = d\<rparr>"

text \<open>A sequence of follow requests, each with its acting user and its engine behaviour.\<close>

fun follow_seq :: "(engine \<times> user_row \<times> FollowedCreate) list \<Rightarrow> database \<Rightarrow> database" where
  "follow_seq [] d = d"
| "follow_seq ((e, u, p) # rs) d =
     follow_seq rs (committed (snd (create_Followed e u p (begin_request d))))"

text \<open>Every news row belongs to a stored circle.\<close>

definition news_fk_ok :: "database \<Rightarrow> bool" where
  "news_fk_ok d = list_all (\<lambda>n. n_circle_id n \<in> set (map c_id (circles d))) (circle_news d)"

text \<open>At most one membership row per (user, circle) pair.\<close>

definition followed_unique :: "database \<Rightarrow> bool" where
  "followed_unique d = distinct (map (\<lambda>f. (f_user_id f, f_circle_id f)) (followed d))"

text \<open>Primary keys as an autoincrement key generates them: positive, and unique per circle.\<close>

definition followed_ids_ok :: "database \<Rightarrow> bool" where
  "followed_ids_ok d = list_all (\<lambda>f. 0 < f_id f) (followed d)"

definition circle_ids_ok :: "database \<Rightarrow> bool" where
  "circle_ids_ok d = (distinct (map c_id (circles d)) \<and> list_all (\<lambda>c. 0 < c_id c) (circles d))"

subsection \<open>A small database for concrete runs\<close>

definition empty_database :: database where
  "empty_database =
     \<lparr>users = [], circles = [], circle_news = [], followed = [], user_schedules = []\<rparr>"

definition quiet_engine :: engine where
  "quiet_engine =
     \<lparr>flush_raises = None, commit_raises = None, execute_raises = None, clock = 1000\<rparr>"

definition ex_circle :: "int \<Rightarrow> string \<Rightarrow> circle_row" where
  "ex_circle i n =
     \<lparr>c_id = i, c_name = Some n, c_description = None, c_followers = 0,
      c_image = None, c_tags = Some [], c_sns_links_x = None, c_sns_links_instagram = None,
      c_sns_links_line = None, c_created_at = 5\<rparr>"

definition ex_follow :: "int \<Rightarrow> int \<Rightarrow> int \<Rightarrow> followed_row" where
  "ex_follow i u c =
     \<lparr>f_id = i, f_user_id = u, f_circle_id = c, f_date = None, f_is_admin = False\<rparr>"

definition ex_user :: "int \<Rightarrow> string \<Rightarrow> user_row" where
  "ex_user i n =
     \<lparr>u_id = i, u_name = Some n, u_email = Some (n @ ''@example.org''), u_icon = None,
      u_login_id = Some (n @ ''_login''), u_login_pass = Some ''hash'', u_created_at = 7\<rparr>"

definition ex_db :: database where
  "ex_db = empty_database
     \<lparr>users := [ex_user 10 ''ann'', ex_user 11 ''bob'', ex_user 12 ''cy''],
      circles := [ex_circle 1 ''chess'', ex_circle 2 ''go''],
      followed := [ex_follow 1 10 1, ex_follow 2 11 2, ex_follow 3 12 1]\<rparr>"

definition ex_payload :: CircleNewsCreate where
  "ex_payload =
     \<lparr>p_circle_id = 1, p_title = ''meeting'', p_date = 20000, p_content = Some ''room 3'',
      p_has_photo = False, p_photo_url = None\<rparr>"

definition failing_engine :: "db_exception \<Rightarrow> engine" where
  "failing_engine x = quiet_engine\<lparr>commit_raises := Some x\<rparr>"

definition ex_follow_payload :: "int \<Rightarrow> int \<Rightarrow> FollowedCreate" where
  "ex_follow_payload claimed c =
     \<lparr>fc_user_id = claimed, fc_circle_id = c, fc_date = None, fc_is_admin = False\<rparr>"

definition ex_news :: news_row where
  "ex_news =
     \<lparr>n_id = 1, n_circle_id = 1, n_title = ''meeting'', n_date = 20000,
      n_content = Some ''room 3'', n_has_photo = True, n_photo_url = Some ''/img/old.png'',
      n_created_at = 900\<rparr>"

definition ex_news_db :: database where
  "ex_news_db = ex_db\<lparr>circle_news := [ex_news]\<rparr>"

text \<open>A \<^verbatim>\<open>PUT\<close> body that sends only the required keys and a new \<^verbatim>\<open>photo_url\<close>.\<close>

definition ex_body :: CircleNewsBody where
  "ex_body =
     \<lparr>b_circle_id = Some 1, b_title = Some ''party'', b_date = Some 20001,
      b_content = None, b_has_photo = None, b_photo_url = Some (Some ''/img/new.png'')\<rparr>"

definition ex_user_create :: UserCreate where
  "ex_user_create =
     \<lparr>uc_name = ''dan'', uc_email = ''dan@example.org'', uc_icon = None,
      uc_login_id = ''dan_login'', uc_login_pass = ''secret1''\<rparr>"

lemmas ex_defs = begin_request_def quiet_engine_def failing_engine_def ex_payload_def ex_db_def
  empty_database_def ex_follow_def ex_circle_def ex_user_def ex_follow_payload_def
  ex_news_def ex_news_db_def ex_body_def ex_user_create_def

section \<open>Properties of the news fan-out\<close>

lemma add_all_append:
  "\<exists>ids. length ids = length mks \<and> add_all getid mks tbl = tbl @ map2 (\<lambda>mk i. mk i) mks ids"
proof (induction mks arbitrary: tbl)
  case Nil
  show ?case by (simp add: add_all_def)
next
  case (Cons mk mks)
  obtain ids where l: "length ids = length mks"
    and e: "add_all getid mks (add_row getid mk tbl)
             = add_row getid mk tbl @ map2 (\<lambda>mk i. mk i) mks ids"
    using Cons.IH by blast
  have "add_all getid (mk # mks) tbl = add_all getid mks (add_row getid mk tbl)"
    by (simp add: add_all_def)
  also have "\<dots> = tbl @ map2 (\<lambda>mk i. mk i) (mk # mks) (next_id (map getid tbl) # ids)"
    using e by (simp add: add_row_def)
  finally show ?case using l
    by (intro exI [of _ "next_id (map getid tbl) # ids"]) simp
qed

lemma create_news_ok:
  assumes "create_news e cid payload db = (Inr news, db')"
  shows "cid = p_circle_id payload \<and> flush_raises e = None \<and> commit_raises e = None"
  using assms
  by (auto simp: create_news_def Let_def split: if_splits option.splits db_exception.splits)

lemma CircleNews_sel:
  "n_id (CircleNews p now i) = i" "n_circle_id (CircleNews p now i) = p_circle_id p"
  "n_title (CircleNews p now i) = p_title p" "n_date (CircleNews p now i) = p_date p"
  by (simp_all add: CircleNews_def)

lemma create_news_commits:
  assumes "cid = p_circle_id payload" "flush_raises e = None" "commit_raises e = None"
  shows "create_news e cid payload db =
    (Inr (CircleNews payload (clock e) (next_id (map n_id (circle_news (working db))))),
     db_commit (db\<lparr>working := (working db)
       \<lparr>circle_news := circle_news (working db) @
           [CircleNews payload (clock e) (next_id (map n_id (circle_news (working db))))],
        user_schedules := add_all s_id
           (map (UserSchedule
                   (CircleNews payload (clock e) (next_id (map n_id (circle_news (working db)))))
                   (clock e))
              (map f_user_id (filter (\<lambda>f. f_circle_id f = cid) (followed (working db)))))
           (user_schedules (working db))\<rparr>\<rparr>))"
  by (simp add: create_news_def Let_def assms CircleNews_sel add_all_def)

lemma create_news_success_effect:
  assumes run: "create_news e cid payload db = (Inr news, db')"
    and clean: "working db = committed db"
  shows "\<exists>scheds.
      circle_news (committed db') = circle_news (committed db) @ [news]
    \<and> n_circle_id news = cid \<and> n_title news = p_title payload \<and> n_date news = p_date payload
    \<and> user_schedules (committed db') = user_schedules (committed db) @ scheds
    \<and> map s_user_id scheds
        = map f_user_id (filter (\<lambda>f. f_circle_id f = cid) (followed (committed db)))
    \<and> length scheds = length (filter (\<lambda>f. f_circle_id f = cid) (followed (committed db)))
    \<and> (\<forall>s \<in> set scheds. s_title s = n_title news \<and> s_start_at s = n_date news
          \<and> s_end_at s = n_date news \<and> s_circlenews_id s = n_id news)
    \<and> users (committed db') = users (committed db)
    \<and> circles (committed db') = circles (committed db)
    \<and> followed (committed db') = followed (committed db)"
proof -
  from create_news_ok [OF run]
  have c: "cid = p_circle_id payload" and f: "flush_raises e = None"
    and k: "commit_raises e = None" by simp_all
  define nw where
    "nw = CircleNews payload (clock e) (next_id (map n_id (circle_news (working db))))"
  define fids where
    "fids = map f_user_id (filter (\<lambda>f. f_circle_id f = cid) (followed (committed db)))"
  define mks where "mks = map (UserSchedule nw (clock e)) fids"
  have ncid: "n_circle_id nw = cid" by (simp add: nw_def CircleNews_sel c)
  obtain ids where li: "length ids = length mks"
    and ad: "add_all s_id mks (user_schedules (committed db))
              = user_schedules (committed db) @ map2 (\<lambda>mk i. mk i) mks ids"
    using add_all_append by blast
  define scheds where "scheds = map2 (\<lambda>mk i. mk i) mks ids"
  have "create_news e cid payload db = (Inr nw, db_commit (db\<lparr>working := (working db)
       \<lparr>circle_news := circle_news (working db) @ [nw],
        user_schedules := add_all s_id mks (user_schedules (working db))\<rparr>\<rparr>))"
    by (simp add: create_news_commits [OF c f k] nw_def mks_def fids_def clean)
  with run have news: "news = nw"
    and db': "db' = db_commit (db\<lparr>working := (working db)
       \<lparr>circle_news := circle_news (working db) @ [nw],
        user_schedules := add_all s_id mks (user_schedules (working db))\<rparr>\<rparr>)"
    by auto
  have sch: "user_schedules (committed db') = user_schedules (committed db) @ scheds"
    by (simp add: db' db_commit_def clean scheds_def ad)
  have len: "length scheds = length fids"
    by (simp add: scheds_def li mks_def)
  have uid: "map s_user_id scheds = fids"
  proof (rule nth_equalityI)
    show "length (map s_user_id scheds) = length fids" by (simp add: len)
  next
    fix i assume "i < length (map s_user_id scheds)"
    then have "i < length fids" by (simp add: len)
    then show "map s_user_id scheds ! i = fids ! i"
      by (simp add: scheds_def li mks_def UserSchedule_def)
  qed
  have each: "\<forall>s \<in> set scheds. s_title s = n_title nw \<and> s_start_at s = n_date nw
          \<and> s_end_at s = n_date nw \<and> s_circlenews_id s = n_id nw"
    by (auto simp: scheds_def mks_def UserSchedule_def set_zip)
  have rest: "circle_news (committed db') = circle_news (committed db) @ [nw]"
     "users (committed db') = users (committed db)"
     "circles (committed db') = circles (committed db)"
     "followed (committed db') = followed (committed db)"
    by (simp_all add: db' db_commit_def clean)
  have flds: "n_title nw = p_title payload" "n_date nw = p_date payload"
    by (simp_all add: nw_def CircleNews_sel)
  show ?thesis
    using sch len uid each rest flds ncid unfolding news fids_def
    by (intro exI [of _ scheds]) simp
qed

text \<open>
  C1. A successful \<open>create_news\<close> for a circle appends exactly the returned news row to
  the stored news and appends to the stored schedules exactly one row per Followed row
  of that circle, in order, each for that follower, with the title of the news and with
  \<open>start_at = end_at =\<close> the date of the news; with no follower the news row is stored
  and the schedules are unchanged. The other tables are unchanged.
\<close>

theorem create_news_fan_out:
  assumes run: "create_news e cid payload db = (Inr news, db')"
    and clean: "working db = committed db"
  shows "\<exists>scheds.
      circle_news (committed db') = circle_news (committed db) @ [news]
    \<and> n_circle_id news = cid \<and> n_title news = p_title payload \<and> n_date news = p_date payload
    \<and> user_schedules (committed db') = user_schedules (committed db) @ scheds
    \<and> map s_user_id scheds
        = map f_user_id (filter (\<lambda>f. f_circle_id f = cid) (followed (committed db)))
    \<and> length scheds = length (filter (\<lambda>f. f_circle_id f = cid) (followed (committed db)))
    \<and> (\<forall>s \<in> set scheds. s_title s = n_title news \<and> s_start_at s = n_date news
          \<and> s_end_at s = n_date news \<and> s_circlenews_id s = n_id news)
    \<and> users (committed db') = users (committed db)
    \<and> circles (committed db') = circles (committed db)
    \<and> followed (committed db') = followed (committed db)"
  using run clean by (rule create_news_success_effect)

theorem create_news_fan_out_witness:
  "fst (create_news quiet_engine 1 ex_payload (begin_request ex_db))
     = Inr (CircleNews ex_payload 1000 1)
   \<and> working (begin_request ex_db) = committed (begin_request ex_db)
   \<and> map s_user_id (user_schedules (committed (snd
        (create_news quiet_engine 1 ex_payload (begin_request ex_db))))) = [10, 12]
   \<and> map s_start_at (user_schedules (committed (snd
        (create_news quiet_engine 1 ex_payload (begin_request ex_db))))) = [20000, 20000]"
proof -
  define out where "out = create_news quiet_engine 1 ex_payload (begin_request ex_db)"
  have f: "fst out = Inr (CircleNews ex_payload 1000 1)"
    by (simp add: out_def create_news_def Let_def ex_defs next_id_def)
  have r: "create_news quiet_engine 1 ex_payload (begin_request ex_db)
         = (Inr (CircleNews ex_payload 1000 1), snd out)"
    using f by (simp add: prod_eq_iff out_def)
  have c: "working (begin_request ex_db) = committed (begin_request ex_db)"
    by (simp add: begin_request_def)
  from create_news_fan_out [OF r c] obtain scheds where
    a: "user_schedules (committed (snd out))
          = user_schedules (committed (begin_request ex_db)) @ scheds"
    and b: "map s_user_id scheds
          = map f_user_id (filter (\<lambda>f. f_circle_id f = 1)
              (followed (committed (begin_request ex_db))))"
    and d: "\<forall>s \<in> set scheds. s_start_at s = n_date (CircleNews ex_payload 1000 1)"
    by blast
  have a': "user_schedules (committed (snd out)) = scheds"
    using a by (simp add: ex_defs)
  have b': "map s_user_id scheds = [10, 12]"
    using b by (simp add: ex_defs)
  have d': "map s_start_at scheds = [20000, 20000]"
  proof -
    have "length (map s_user_id scheds) = 2" unfolding b' by simp
    then have "length scheds = 2" by simp
    then obtain x y where "scheds = [x, y]"
      by (metis (no_types) length_0_conv length_Suc_conv numeral_2_eq_2)
    then show ?thesis using d by (simp add: CircleNews_def ex_payload_def)
  qed
  show ?thesis using f c a' b' d' unfolding out_def by simp
qed

text \<open>
  C3. A \<open>create_news\<close> request whose path \<open>circle_id\<close> differs from the one of the body
  fails with status 400 and leaves the session, committed and pending, as it was.
\<close>

theorem create_news_mismatch:
  assumes "cid \<noteq> p_circle_id payload"
  shows "create_news e cid payload db
           = (Inl (HTTPException 400 ''circle_id mismatch between path and body''), db)"
  using assms by (simp add: create_news_def)

theorem create_news_mismatch_witness:
  "(2::int) \<noteq> p_circle_id ex_payload
   \<and> create_news quiet_engine 2 ex_payload (begin_request ex_db)
       = (Inl (HTTPException 400 ''circle_id mismatch between path and body''),
          begin_request ex_db)"
proof -
  have h: "(2::int) \<noteq> p_circle_id ex_payload" by (simp add: ex_payload_def)
  show ?thesis using h create_news_mismatch [OF h] by simp
qed

lemma create_news_error_keeps_committed:
  assumes "fst (create_news e cid payload db) = Inl err"
  shows "committed (snd (create_news e cid payload db)) = committed db"
  using assms
  by (auto simp: create_news_def Let_def db_rollback_def db_commit_def
      split: if_splits option.splits db_exception.splits)

text \<open>
  C2. When the commit of \<open>create_news\<close> raises, the handler answers 409 for an
  \<open>IntegrityError\<close> and 500 for any other exception, and the session is rolled back to the
  state the request started from: neither the news row nor a schedule row is kept.
\<close>

theorem create_news_all_or_nothing:
  assumes reach: "cid = p_circle_id payload" "flush_raises e = None"
    and fail: "commit_raises e = Some x"
    and clean: "working db = committed db"
  shows "(\<forall>orig text. x = IntegrityError orig text \<longrightarrow>
            fst (create_news e cid payload db)
              = Inl (HTTPException 409 (''unique constraint failed: '' @ orig)))
       \<and> ((\<forall>orig text. x \<noteq> IntegrityError orig text) \<longrightarrow>
            fst (create_news e cid payload db)
              = Inl (HTTPException 500 (''create news failed: '' @ exc_str x)))
       \<and> snd (create_news e cid payload db) = db"
proof -
  show ?thesis
    using reach fail clean
    by (cases x) (simp_all add: create_news_def Let_def db_rollback_def CircleNews_sel)
qed

theorem create_news_all_or_nothing_witness:
  "create_news (failing_engine (IntegrityError ''UNIQUE constraint failed'' ''IntegrityError''))
       1 ex_payload (begin_request ex_db)
     = (Inl (HTTPException 409 ''unique constraint failed: UNIQUE constraint failed''),
        begin_request ex_db)
   \<and> create_news (failing_engine (OtherError ''connection lost''))
       1 ex_payload (begin_request ex_db)
     = (Inl (HTTPException 500 ''create news failed: connection lost''), begin_request ex_db)"
proof -
  have c: "(1::int) = p_circle_id ex_payload" by (simp add: ex_payload_def)
  have f: "flush_raises (failing_engine x) = None" for x
    by (simp add: failing_engine_def quiet_engine_def)
  have k: "commit_raises (failing_engine x) = Some x" for x
    by (simp add: failing_engine_def quiet_engine_def)
  have w: "working (begin_request ex_db) = committed (begin_request ex_db)"
    by (simp add: begin_request_def)
  show ?thesis
    using create_news_all_or_nothing [OF c f k w,
        of "IntegrityError ''UNIQUE constraint failed'' ''IntegrityError''"]
      create_news_all_or_nothing [OF c f k w, of "OtherError ''connection lost''"]
    by (simp add: prod_eq_iff)
qed

section \<open>Properties of following\<close>

lemma next_id_pos: "0 < next_id ids"
proof -
  have "0 \<le> foldr max ids (0::int)" by (induction ids) auto
  then show ?thesis by (simp add: next_id_def)
qed

lemma filter_key_unique:
  "distinct (map k xs) \<Longrightarrow> x \<in> set xs \<Longrightarrow> filter (\<lambda>y. k y = k x) xs = [x]"
  by (induction xs) (auto simp: filter_empty_conv image_iff)

lemma create_Followed_not_found:
  assumes "fc_circle_id p \<notin> c_id ` set (circles (working db))"
  shows "create_Followed e u p db = (Inl (HTTPException 404 ''circle not found''), db)"
proof -
  have "filter (\<lambda>c. c_id c = fc_circle_id p) (circles (working db)) = []"
    using assms by (force simp: filter_empty_conv image_iff)
  then show ?thesis
    by (simp add: create_Followed_def Let_def scalar_one_or_none_def truthy_int_def)
qed

lemma circle_lookup:
  assumes "circle_ids_ok d" "c \<in> c_id ` set (circles d)"
  shows "scalar_one_or_none (map c_id (filter (\<lambda>r. c_id r = c) (circles d))) = Inr (Some c)"
    and "0 < c"
proof -
  from assms(2) obtain r where r: "r \<in> set (circles d)" "c_id r = c" by auto
  have "filter (\<lambda>y. c_id y = c_id r) (circles d) = [r]"
    using assms(1) r(1) by (intro filter_key_unique) (simp add: circle_ids_ok_def)
  then show "scalar_one_or_none (map c_id (filter (\<lambda>r. c_id r = c) (circles d))) = Inr (Some c)"
    using r(2) by (simp add: scalar_one_or_none_def)
  show "0 < c" using assms(1) r by (auto simp: circle_ids_ok_def list_all_iff)
qed

lemma membership_lookup:
  assumes "followed_unique d" "followed_ids_ok d"
    and "(uid, c) \<in> (\<lambda>f. (f_user_id f, f_circle_id f)) ` set (followed d)"
  shows "\<exists>i. 0 < i \<and> scalar_one_or_none
            (map f_id (filter (\<lambda>f. f_user_id f = uid \<and> f_circle_id f = c) (followed d)))
           = Inr (Some i)"
proof -
  from assms(3) obtain r where r: "r \<in> set (followed d)" "f_user_id r = uid" "f_circle_id r = c"
    by auto
  have "filter (\<lambda>y. (f_user_id y, f_circle_id y) = (f_user_id r, f_circle_id r)) (followed d) = [r]"
    using assms(1) r(1) by (intro filter_key_unique) (simp add: followed_unique_def)
  then have "filter (\<lambda>f. f_user_id f = uid \<and> f_circle_id f = c) (followed d) = [r]"
    using r by simp
  moreover have "0 < f_id r" using assms(2) r(1) by (auto simp: followed_ids_ok_def list_all_iff)
  ultimately show ?thesis by (simp add: scalar_one_or_none_def)
qed

lemma create_Followed_conflict:
  assumes "followed_unique (working db)" "followed_ids_ok (working db)"
    "circle_ids_ok (working db)"
    and "fc_circle_id p \<in> c_id ` set (circles (working db))"
    and "(u_id u, fc_circle_id p) \<in> (\<lambda>f. (f_user_id f, f_circle_id f)) ` set (followed (working db))"
  shows "create_Followed e u p db = (Inl (HTTPException 409 ''already joined''), db)"
proof -
  note c = circle_lookup [OF assms(3,4)]
  from membership_lookup [OF assms(1,2,5)] obtain i where "0 < i"
    "scalar_one_or_none (map f_id (filter (\<lambda>f. f_user_id f = u_id u \<and> f_circle_id f = fc_circle_id p)
       (followed (working db)))) = Inr (Some i)" by blast
  then show ?thesis using c
    by (simp add: create_Followed_def Let_def truthy_int_def)
qed

text \<open>What a successful insert looks like.\<close>

lemma create_Followed_success:
  assumes "create_Followed e u p db = (Inr r, db')"
  shows "\<exists>i. i \<noteq> 0 \<and> map c_id (filter (\<lambda>c. c_id c = fc_circle_id p) (circles (working db))) = [i]"
    and "followed_ids_ok (working db) \<Longrightarrow>
           filter (\<lambda>f. f_user_id f = u_id u \<and> f_circle_id f = fc_circle_id p) (followed (working db)) = []"
    and "r = Followed (p\<lparr>fc_user_id := u_id u\<rparr>) (next_id (map f_id (followed (working db))))"
    and "db' = db_commit (db\<lparr>working := (working db)\<lparr>followed := followed (working db) @ [r]\<rparr>\<rparr>)"
proof -
  let ?cs = "map c_id (filter (\<lambda>c. c_id c = fc_circle_id p) (circles (working db)))"
  let ?fs = "filter (\<lambda>f. f_user_id f = u_id u \<and> f_circle_id f = fc_circle_id p) (followed (working db))"
  from assms obtain circle where c: "scalar_one_or_none ?cs = Inr circle" "truthy_int circle"
    by (auto simp: create_Followed_def Let_def split: sum.splits if_splits)
  then show "\<exists>i. i \<noteq> 0 \<and> ?cs = [i]"
    by (auto simp: scalar_one_or_none_def truthy_int_def split: list.splits option.splits)
  from assms c obtain dup where d: "scalar_one_or_none (map f_id ?fs) = Inr dup" "\<not> truthy_int dup"
    by (auto simp: create_Followed_def Let_def split: sum.splits if_splits)
  show "?fs = []" if ok: "followed_ids_ok (working db)"
  proof (rule ccontr)
    assume ne: "?fs \<noteq> []"
    then obtain x xs where x: "?fs = x # xs" by (cases ?fs) auto
    then have "x \<in> set ?fs" by simp
    then have "x \<in> set (followed (working db))" by simp
    then have "0 < f_id x" using ok by (auto simp: followed_ids_ok_def list_all_iff)
    then show False using d x
      by (auto simp: scalar_one_or_none_def truthy_int_def split: list.splits)
  qed
  from assms c d show "r = Followed (p\<lparr>fc_user_id := u_id u\<rparr>) (next_id (map f_id (followed (working db))))"
    by (auto simp: create_Followed_def Let_def split: option.splits db_exception.splits)
  from assms c d show "db' = db_commit (db\<lparr>working := (working db)\<lparr>followed := followed (working db) @ [r]\<rparr>\<rparr>)"
    by (auto simp: create_Followed_def Let_def split: option.splits db_exception.splits)
qed

lemma create_Followed_committed:
  "committed (snd (create_Followed e u p db)) = committed db
   \<or> (\<exists>r. create_Followed e u p db = (Inr r, snd (create_Followed e u p db)))"
  by (auto simp: create_Followed_def Let_def db_rollback_def
      split: sum.splits option.splits db_exception.splits)

lemma create_Followed_step:
  assumes "followed_unique d" "followed_ids_ok d"
  shows "followed_unique (committed (snd (create_Followed e u p (begin_request d))))
       \<and> followed_ids_ok (committed (snd (create_Followed e u p (begin_request d))))"
proof -
  let ?s = "begin_request d"
  let ?out = "create_Followed e u p ?s"
  have w: "working ?s = d" "committed ?s = d" by (simp_all add: begin_request_def)
  from create_Followed_committed [of e u p ?s]
  consider "committed (snd ?out) = d" | r where "?out = (Inr r, snd ?out)"
    using w by auto
  then show ?thesis
  proof cases
    case 1
    then show ?thesis using assms by simp
  next
    case 2
    note s = create_Followed_success [OF 2, unfolded w]
    have none: "filter (\<lambda>f. f_user_id f = u_id u \<and> f_circle_id f = fc_circle_id p) (followed d) = []"
      using s(2) assms(2) by simp
    have r: "f_user_id r = u_id u" "f_circle_id r = fc_circle_id p" "0 < f_id r"
      using s(3) by (simp_all add: Followed_def next_id_pos)
    have new: "followed (committed (snd ?out)) = followed d @ [r]"
      using s(4) by (simp add: db_commit_def)
    have "(u_id u, fc_circle_id p) \<notin> (\<lambda>f. (f_user_id f, f_circle_id f)) ` set (followed d)"
      using none by (auto simp: filter_empty_conv)
    then show ?thesis
      using assms r new by (simp add: followed_unique_def followed_ids_ok_def)
  qed
qed

lemma follow_seq_invariant:
  "followed_unique d \<Longrightarrow> followed_ids_ok d
   \<Longrightarrow> followed_unique (follow_seq rs d) \<and> followed_ids_ok (follow_seq rs d)"
proof (induction rs arbitrary: d)
  case Nil
  then show ?case by simp
next
  case (Cons a rs)
  obtain e u p where a: "a = (e, u, p)" by (cases a) auto
  show ?case unfolding a follow_seq.simps
    by (rule Cons.IH) (simp_all add: create_Followed_step Cons.prems)
qed

lemma create_Followed_again:
  assumes first: "create_Followed e u p (begin_request d) = (Inr r, db')"
    and ok: "followed_ids_ok d"
    and same: "fc_circle_id p' = fc_circle_id p"
  shows "create_Followed e' u p' (begin_request (committed db'))
           = (Inl (HTTPException 409 ''already joined''), begin_request (committed db'))"
    and "length (filter (\<lambda>f. f_user_id f = u_id u \<and> f_circle_id f = fc_circle_id p)
                   (followed (committed db'))) = 1"
proof -
  have w: "working (begin_request d) = d" "committed (begin_request d) = d"
    by (simp_all add: begin_request_def)
  note s = create_Followed_success [OF first, unfolded w]
  from s(1) obtain i where i: "i \<noteq> 0"
    "map c_id (filter (\<lambda>c. c_id c = fc_circle_id p) (circles d)) = [i]" by (elim exE conjE)
  have none: "filter (\<lambda>f. f_user_id f = u_id u \<and> f_circle_id f = fc_circle_id p) (followed d) = []"
    using s(2) ok by simp
  have r: "f_user_id r = u_id u" "f_circle_id r = fc_circle_id p" "0 < f_id r"
    using s(3) by (simp_all add: Followed_def next_id_pos)
  have d': "committed db' = d\<lparr>followed := followed d @ [r]\<rparr>"
    using s(4) by (simp add: db_commit_def)
  have fs: "filter (\<lambda>f. f_user_id f = u_id u \<and> f_circle_id f = fc_circle_id p)
              (followed (committed db')) = [r]"
    using none r by (simp add: d')
  then show "length (filter (\<lambda>f. f_user_id f = u_id u \<and> f_circle_id f = fc_circle_id p)
                   (followed (committed db'))) = 1" by simp
  define s2 where "s2 = begin_request (committed db')"
  have w2: "working s2 = committed db'" by (simp add: s2_def begin_request_def)
  have cs: "map c_id (filter (\<lambda>c. c_id c = fc_circle_id p') (circles (working s2))) = [i]"
    using i(2) by (simp add: w2 d' same)
  have ds: "map f_id (filter (\<lambda>f. f_user_id f = u_id u \<and> f_circle_id f = fc_circle_id p')
              (followed (working s2))) = [f_id r]"
    using fs by (simp add: w2 same)
  have "create_Followed e' u p' s2 = (Inl (HTTPException 409 ''already joined''), s2)"
    using i(1) r(3)
    by (simp add: create_Followed_def Let_def cs ds scalar_one_or_none_def truthy_int_def)
  then show "create_Followed e' u p' (begin_request (committed db'))
           = (Inl (HTTPException 409 ''already joined''), begin_request (committed db'))"
    by (simp add: s2_def)
qed

text \<open>
  C5. On a database where each (user, circle) pair has at most one Followed row and
  primary keys are positive and unique: a follow request for a circle that does not exist
  fails with 404; a follow request of a user who already follows the circle fails
  with 409 and changes nothing; after any sequence of follow requests each pair still has
  at most one row; and after a successful follow, a second follow of the same circle by
  the same user fails with 409, the pair having exactly one row.
\<close>

theorem follow_at_most_once:
  assumes "followed_unique d" "followed_ids_ok d" "circle_ids_ok d"
  shows "(fc_circle_id p \<notin> c_id ` set (circles d) \<longrightarrow>
            create_Followed e u p (begin_request d)
              = (Inl (HTTPException 404 ''circle not found''), begin_request d))
       \<and> (fc_circle_id p \<in> c_id ` set (circles d)
            \<and> (u_id u, fc_circle_id p) \<in> (\<lambda>f. (f_user_id f, f_circle_id f)) ` set (followed d) \<longrightarrow>
            create_Followed e u p (begin_request d)
              = (Inl (HTTPException 409 ''already joined''), begin_request d))
       \<and> followed_unique (follow_seq rs d)
       \<and> (\<forall>r db'. create_Followed e u p (begin_request d) = (Inr r, db') \<longrightarrow>
            (\<forall>e' (p'::FollowedCreate). fc_circle_id p' = fc_circle_id p \<longrightarrow>
               create_Followed e' u p' (begin_request (committed db'))
                 = (Inl (HTTPException 409 ''already joined''), begin_request (committed db')))
            \<and> length (filter (\<lambda>f. f_user_id f = u_id u \<and> f_circle_id f = fc_circle_id p)
                         (followed (committed db'))) = 1)"
proof (intro conjI impI allI)
  assume "fc_circle_id p \<notin> c_id ` set (circles d)"
  then show "create_Followed e u p (begin_request d)
              = (Inl (HTTPException 404 ''circle not found''), begin_request d)"
    by (intro create_Followed_not_found) (simp add: begin_request_def)
next
  assume "fc_circle_id p \<in> c_id ` set (circles d)
          \<and> (u_id u, fc_circle_id p) \<in> (\<lambda>f. (f_user_id f, f_circle_id f)) ` set (followed d)"
  then show "create_Followed e u p (begin_request d)
              = (Inl (HTTPException 409 ''already joined''), begin_request d)"
    using assms by (intro create_Followed_conflict) (simp_all add: begin_request_def)
next
  show "followed_unique (follow_seq rs d)"
    using follow_seq_invariant [OF assms(1,2)] by simp
next
  fix r db' e' and p' :: FollowedCreate
  assume first: "create_Followed e u p (begin_request d) = (Inr r, db')"
    and same: "fc_circle_id p' = fc_circle_id p"
  show "create_Followed e' u p' (begin_request (committed db'))
                 = (Inl (HTTPException 409 ''already joined''), begin_request (committed db'))"
    by (rule create_Followed_again(1) [OF first assms(2) same])
next
  fix r db'
  assume first: "create_Followed e u p (begin_request d) = (Inr r, db')"
  show "length (filter (\<lambda>f. f_user_id f = u_id u \<and> f_circle_id f = fc_circle_id p)
                         (followed (committed db'))) = 1"
    by (rule create_Followed_again(2) [OF first assms(2) refl])
qed

lemma ex_db_ok: "followed_unique ex_db" "followed_ids_ok ex_db" "circle_ids_ok ex_db"
  by (simp_all add: followed_unique_def followed_ids_ok_def circle_ids_ok_def ex_defs)

lemma ex_follow_twice:
  "map (\<lambda>f. (f_id f, f_user_id f, f_circle_id f))
     (followed (follow_seq [(quiet_engine, ex_user 11 ''bob'', ex_follow_payload 999 1),
               (quiet_engine, ex_user 11 ''bob'', ex_follow_payload 999 1)] ex_db))
   = [(1, 10, 1), (2, 11, 2), (3, 12, 1), (4, 11, 1)]"
  by (simp add: create_Followed_def Let_def scalar_one_or_none_def truthy_int_def
      Followed_def next_id_def db_commit_def ex_defs)

theorem follow_at_most_once_witness:
  "followed_unique ex_db \<and> followed_ids_ok ex_db \<and> circle_ids_ok ex_db
   \<and> create_Followed quiet_engine (ex_user 10 ''ann'') (ex_follow_payload 10 1)
        (begin_request ex_db)
      = (Inl (HTTPException 409 ''already joined''), begin_request ex_db)
   \<and> create_Followed quiet_engine (ex_user 10 ''ann'') (ex_follow_payload 10 7)
        (begin_request ex_db)
      = (Inl (HTTPException 404 ''circle not found''), begin_request ex_db)
   \<and> followed_unique
        (follow_seq [(quiet_engine, ex_user 11 ''bob'', ex_follow_payload 999 1),
                     (quiet_engine, ex_user 11 ''bob'', ex_follow_payload 999 1)] ex_db)
   \<and> map (\<lambda>f. (f_id f, f_user_id f, f_circle_id f))
        (followed (follow_seq [(quiet_engine, ex_user 11 ''bob'', ex_follow_payload 999 1),
                     (quiet_engine, ex_user 11 ''bob'', ex_follow_payload 999 1)] ex_db))
      = [(1, 10, 1), (2, 11, 2), (3, 12, 1), (4, 11, 1)]"
proof -
  note ok = ex_db_ok
  have a: "fc_circle_id (ex_follow_payload 10 1) \<in> c_id ` set (circles ex_db)
      \<and> (u_id (ex_user 10 ''ann''), fc_circle_id (ex_follow_payload 10 1))
          \<in> (\<lambda>f. (f_user_id f, f_circle_id f)) ` set (followed ex_db)"
    by (simp add: ex_defs)
  have b: "fc_circle_id (ex_follow_payload 10 7) \<notin> c_id ` set (circles ex_db)"
    by (simp add: ex_defs)
  show ?thesis
    using ok a b
      follow_at_most_once [OF ok, of "ex_follow_payload 10 1" quiet_engine "ex_user 10 ''ann''"
        "[(quiet_engine, ex_user 11 ''bob'', ex_follow_payload 999 1),
          (quiet_engine, ex_user 11 ''bob'', ex_follow_payload 999 1)]"]
      follow_at_most_once [OF ok, of "ex_follow_payload 10 7" quiet_engine "ex_user 10 ''ann''" "[]"]
      ex_follow_twice
    by blast
qed

text \<open>
  C6. The \<open>user_id\<close> of the payload has no influence on \<open>create_Followed\<close>: two requests of
  the same acting user that differ only in that field give the same response and the same
  session; and the row a successful request stores carries the id of the acting user.
\<close>

theorem create_Followed_ignores_payload_user:
  "create_Followed e u (p\<lparr>fc_user_id := a\<rparr>) db = create_Followed e u (p\<lparr>fc_user_id := b\<rparr>) db
   \<and> (\<forall>r db'. create_Followed e u p db = (Inr r, db')
         \<longrightarrow> f_user_id r = u_id u \<and> f_circle_id r = fc_circle_id p
             \<and> followed (committed db') = followed (working db) @ [r])"
proof -
  have "create_Followed e u (p\<lparr>fc_user_id := a\<rparr>) db = create_Followed e u (p\<lparr>fc_user_id := b\<rparr>) db"
    by (simp add: create_Followed_def Let_def cong: sum.case_cong if_cong)
  moreover have "f_user_id r = u_id u \<and> f_circle_id r = fc_circle_id p
             \<and> followed (committed db') = followed (working db) @ [r]"
    if "create_Followed e u p db = (Inr r, db')" for r db'
    using create_Followed_success(3,4) [OF that] by (simp add: Followed_def db_commit_def)
  ultimately show ?thesis by blast
qed

theorem create_Followed_ignores_payload_user_witness:
  "fst (create_Followed quiet_engine (ex_user 11 ''bob'') (ex_follow_payload 999 1)
         (begin_request ex_db)) = Inr (ex_follow 4 11 1)
   \<and> f_user_id (ex_follow 4 11 1) = u_id (ex_user 11 ''bob'')
   \<and> create_Followed quiet_engine (ex_user 11 ''bob'') (ex_follow_payload 999 1)
        (begin_request ex_db)
     = create_Followed quiet_engine (ex_user 11 ''bob'') (ex_follow_payload 10 1)
        (begin_request ex_db)"
proof -
  define out where "out = create_Followed quiet_engine (ex_user 11 ''bob'')
     (ex_follow_payload 999 1) (begin_request ex_db)"
  have f: "fst out = Inr (ex_follow 4 11 1)"
    by (simp add: out_def create_Followed_def Let_def scalar_one_or_none_def truthy_int_def
        Followed_def next_id_def ex_defs)
  then have r: "create_Followed quiet_engine (ex_user 11 ''bob'') (ex_follow_payload 999 1)
      (begin_request ex_db) = (Inr (ex_follow 4 11 1), snd out)"
    by (simp add: prod_eq_iff out_def)
  have u: "ex_follow_payload 10 1 = (ex_follow_payload 999 1)\<lparr>fc_user_id := 10\<rparr>"
     "ex_follow_payload 999 1 = (ex_follow_payload 999 1)\<lparr>fc_user_id := 999\<rparr>"
    by (simp_all add: ex_follow_payload_def)
  from create_Followed_ignores_payload_user
    [where e = quiet_engine and u = "ex_user 11 ''bob''" and p = "ex_follow_payload 999 1"
       and a = 999 and b = 10 and db = "begin_request ex_db"]
  have "create_Followed quiet_engine (ex_user 11 ''bob'') (ex_follow_payload 999 1)
        (begin_request ex_db)
     = create_Followed quiet_engine (ex_user 11 ''bob'') (ex_follow_payload 10 1)
        (begin_request ex_db)"
    and "f_user_id (ex_follow 4 11 1) = u_id (ex_user 11 ''bob'')"
    using r u by auto
  then show ?thesis using f unfolding out_def by simp
qed

section \<open>Properties of the user list\<close>



section \<open>Failing commits in the update and delete handlers\<close>

lemma update_user_integrity:
  assumes "db_get_user db user_id = Some user"
    and "\<not> (uu_name payload = None \<and> uu_email payload = None \<and> uu_icon payload = None
             \<and> uu_login_id payload = None \<and> uu_login_pass payload = None)"
    and "commit_raises e = Some (IntegrityError orig text)"
    and "working db = committed db"
  shows "update_user hash_pw e user_id payload db
           = (Inl (HTTPException 409 ''email or login_id is already exist''), db)"
  using assms by (auto simp: update_user_def Let_def db_rollback_def)

lemma update_user_not_found:
  assumes "user_id \<notin> u_id ` set (users (working db))"
  shows "update_user hash_pw e user_id payload db
           = (Inl (HTTPException 404 ''Cannot find the user''), db)"
proof -
  have "db_get_user db user_id = None"
    using assms by (force simp: db_get_user_def find_None_iff image_iff)
  then show ?thesis by (simp add: update_user_def)
qed

lemma update_circle_integrity:
  assumes "db_get_circle db circle_id = Some row"
    and "commit_raises e = Some (IntegrityError orig text)"
    and "working db = committed db"
  shows "update_circle e circle_id payload db
           = (Inl (HTTPException 409 ''circle name already exists''), db)"
  using assms by (simp add: update_circle_def Let_def db_rollback_def)

lemma update_circle_not_found:
  assumes "circle_id \<notin> c_id ` set (circles (working db))"
  shows "update_circle e circle_id payload db
           = (Inl (HTTPException 404 ''circle not found''), db)"
proof -
  have "db_get_circle db circle_id = None"
    using assms by (force simp: db_get_circle_def find_None_iff image_iff)
  then show ?thesis by (simp add: update_circle_def)
qed

lemma update_circle_news_integrity:
  assumes "ensure_circle_exists db circle_id = None"
    and "select_circle_news db circle_id news_id = Inr (Some row)"
    and "commit_raises e = Some (IntegrityError orig text)"
    and "working db = committed db"
  shows "update_circle_news e circle_id news_id payload db
           = (Inl (HTTPException 400 (''integrity error: '' @ orig)), db)"
  using assms by (simp add: update_circle_news_def Let_def db_rollback_def)

lemma update_circle_news_not_found:
  assumes "ensure_circle_exists db circle_id = None"
    and "select_circle_news db circle_id news_id = Inr None"
  shows "update_circle_news e circle_id news_id payload db
           = (Inl (HTTPException 404 ''circle_news not found''), db)"
  using assms by (simp add: update_circle_news_def)

text \<open>
  C7. The claim asks for status 409 when the commit of an update raises an
  \<open>IntegrityError\<close>. \<open>update_user\<close> and \<open>update_circle\<close> answer 409 (the two lemmas above),
  \<open>update_circle_news\<close> answers 400: the run below is the failing input. Unknown ids give
  404 and the session is rolled back in all three handlers.
\<close>

theorem update_circle_news_integrity_is_400:
  "update_circle_news
     (failing_engine (IntegrityError ''UNIQUE constraint failed'' ''IntegrityError''))
     1 1 ex_payload (begin_request ex_news_db)
   = (Inl (HTTPException 400 ''integrity error: UNIQUE constraint failed''),
      begin_request ex_news_db)"
  by (simp add: update_circle_news_def ensure_circle_exists_def select_circle_news_def
      scalar_one_or_none_def truthy_int_def Let_def db_rollback_def ex_defs)

text \<open>
  C9. The claim asks that every persistence failure is caught by the handler, the
  transaction rolled back and an \<open>HTTPException\<close> returned. In \<open>delete_user\<close> and
  \<open>delete_Followed\<close> the commit is outside any \<^verbatim>\<open>try\<close>, and \<open>create_user\<close> catches
  \<open>IntegrityError\<close> only: in the runs below the exception of the commit leaves the handler
  as it is, and the pending change is still in the session.
\<close>

theorem commit_failure_escapes:
  "fst (delete_user (failing_engine (IntegrityError ''FOREIGN KEY constraint failed''
          ''IntegrityError'')) 10 (begin_request ex_db))
     = Inl (Unhandled (IntegrityError ''FOREIGN KEY constraint failed'' ''IntegrityError''))
   \<and> working (snd (delete_user (failing_engine (IntegrityError
          ''FOREIGN KEY constraint failed'' ''IntegrityError'')) 10 (begin_request ex_db)))
       \<noteq> committed (snd (delete_user (failing_engine (IntegrityError
          ''FOREIGN KEY constraint failed'' ''IntegrityError'')) 10 (begin_request ex_db)))
   \<and> fst (delete_Followed (failing_engine (OtherError ''connection lost'')) 1
            (ex_user 10 ''ann'') (begin_request ex_db))
     = Inl (Unhandled (OtherError ''connection lost''))
   \<and> working (snd (delete_Followed (failing_engine (OtherError ''connection lost'')) 1
                     (ex_user 10 ''ann'') (begin_request ex_db)))
       \<noteq> committed (snd (delete_Followed (failing_engine (OtherError ''connection lost'')) 1
                     (ex_user 10 ''ann'') (begin_request ex_db)))
   \<and> fst (create_user (\<lambda>pw. ''hashed:'' @ pw) (failing_engine (OtherError ''connection lost''))
            ex_user_create (begin_request ex_db))
     = Inl (Unhandled (OtherError ''connection lost''))
   \<and> working (snd (create_user (\<lambda>pw. ''hashed:'' @ pw)
                     (failing_engine (OtherError ''connection lost''))
                     ex_user_create (begin_request ex_db)))
       \<noteq> committed (snd (create_user (\<lambda>pw. ''hashed:'' @ pw)
                     (failing_engine (OtherError ''connection lost''))
                     ex_user_create (begin_request ex_db)))"
  by (simp add: delete_user_def db_get_user_def delete_Followed_def create_user_def
      scalar_one_or_none_def Let_def ex_defs)

section \<open>News rows and their circles\<close>

lemma news_fk_create:
  assumes ok: "news_fk_ok d"
    and c: "cid \<in> c_id ` set (circles d) \<or> commit_raises e \<noteq> None"
  shows "news_fk_ok (committed (snd (create_news e cid payload (begin_request d))))"
proof (cases "fst (create_news e cid payload (begin_request d))")
  case (Inl err)
  from create_news_error_keeps_committed [OF this] show ?thesis
    using ok by (simp add: begin_request_def)
next
  case (Inr news)
  then have run: "create_news e cid payload (begin_request d)
      = (Inr news, snd (create_news e cid payload (begin_request d)))"
    by (simp add: prod_eq_iff)
  have clean: "working (begin_request d) = committed (begin_request d)"
    by (simp add: begin_request_def)
  from create_news_ok [OF run] c have ex: "cid \<in> c_id ` set (circles d)" by simp
  from create_news_success_effect [OF run clean] obtain scheds where
    "circle_news (committed (snd (create_news e cid payload (begin_request d))))
       = circle_news d @ [news]"
    "n_circle_id news = cid"
    "circles (committed (snd (create_news e cid payload (begin_request d)))) = circles d"
    by (auto simp: begin_request_def)
  then show ?thesis using ok ex by (simp add: news_fk_ok_def)
qed

lemma find_id_Some:
  "find (\<lambda>c. k c = i) xs = Some r \<Longrightarrow> r \<in> set xs \<and> k r = i"
  by (auto simp: find_Some_iff)

lemma news_fk_delete_circle:
  assumes ok: "news_fk_ok d"
    and c: "cid \<notin> n_circle_id ` set (circle_news d) \<or> commit_raises e \<noteq> None"
  shows "news_fk_ok (committed (snd (delete_circle e cid (begin_request d))))"
proof (cases "db_get_circle (begin_request d) cid")
  case None
  then show ?thesis using ok by (simp add: delete_circle_def begin_request_def)
next
  case (Some row)
  then have r: "c_id row = cid"
    using find_id_Some [of c_id cid "circles d" row] by (simp add: db_get_circle_def begin_request_def)
  show ?thesis
  proof (cases "commit_raises e")
    case None
    with c have no: "cid \<notin> n_circle_id ` set (circle_news d)" by simp
    have "committed (snd (delete_circle e cid (begin_request d)))
          = d\<lparr>circles := filter (\<lambda>c. c_id c \<noteq> cid) (circles d)\<rparr>"
      using Some None r by (simp add: delete_circle_def Let_def db_commit_def begin_request_def)
    moreover have "n_circle_id n \<in> c_id ` set (filter (\<lambda>c. c_id c \<noteq> cid) (circles d))"
      if n: "n \<in> set (circle_news d)" for n
    proof -
      from ok n obtain c where "c \<in> set (circles d)" "c_id c = n_circle_id n"
        by (auto simp: news_fk_ok_def list_all_iff)
      moreover have "n_circle_id n \<noteq> cid" using no n by auto
      ultimately show ?thesis by force
    qed
    ultimately show ?thesis by (simp add: news_fk_ok_def list_all_iff)
  next
    case (Some x)
    then show ?thesis using ok \<open>db_get_circle (begin_request d) cid = Some row\<close>
      by (simp add: delete_circle_def Let_def db_rollback_def begin_request_def)
  qed
qed

lemma scalar_one_or_none_Some:
  "scalar_one_or_none xs = Inr (Some x) \<Longrightarrow> xs = [x]"
  by (auto simp: scalar_one_or_none_def split: list.splits)

lemma select_circle_news_Some:
  assumes "select_circle_news db cid nid = Inr (Some row)"
  shows "row \<in> set (circle_news (working db))" "n_circle_id row = cid" "n_id row = nid"
proof -
  have "filter (\<lambda>n. n_circle_id n = cid \<and> n_id n = nid) (circle_news (working db)) = [row]"
    using assms by (simp add: select_circle_news_def scalar_one_or_none_Some)
  then have "row \<in> set (filter (\<lambda>n. n_circle_id n = cid \<and> n_id n = nid) (circle_news (working db)))"
    by simp
  then show "row \<in> set (circle_news (working db))" "n_circle_id row = cid" "n_id row = nid"
    by simp_all
qed

lemma update_circle_news_committed:
  "committed (snd (update_circle_news e cid nid payload db)) = committed db
   \<or> (\<exists>row. select_circle_news db cid nid = Inr (Some row) \<and> commit_raises e = None
        \<and> ensure_circle_exists db cid = None
        \<and> update_circle_news e cid nid payload db =
           (Inr (row\<lparr>n_title := p_title payload, n_content := p_content payload,
                      n_date := p_date payload, n_has_photo := p_has_photo payload\<rparr>),
            db_commit (db\<lparr>working := (working db)\<lparr>circle_news :=
               map (\<lambda>n. if n_id n = n_id row
                        then row\<lparr>n_title := p_title payload, n_content := p_content payload,
                                  n_date := p_date payload, n_has_photo := p_has_photo payload\<rparr>
                        else n) (circle_news (working db))\<rparr>\<rparr>)))"
  by (auto simp: update_circle_news_def Let_def db_rollback_def
      split: option.splits sum.splits db_exception.splits)

lemma news_fk_update_news:
  assumes ok: "news_fk_ok d"
  shows "news_fk_ok (committed (snd (update_circle_news e cid nid payload (begin_request d))))"
proof -
  let ?s = "begin_request d"
  have w: "working ?s = d" "committed ?s = d" by (simp_all add: begin_request_def)
  from update_circle_news_committed [of e cid nid payload ?s]
  show ?thesis
  proof (elim disjE exE conjE)
    assume "committed (snd (update_circle_news e cid nid payload ?s)) = committed ?s"
    then show ?thesis using ok w by simp
  next
    fix row
    assume sel: "select_circle_news ?s cid nid = Inr (Some row)"
      and out: "update_circle_news e cid nid payload ?s =
           (Inr (row\<lparr>n_title := p_title payload, n_content := p_content payload,
                      n_date := p_date payload, n_has_photo := p_has_photo payload\<rparr>),
            db_commit (?s\<lparr>working := (working ?s)\<lparr>circle_news :=
               map (\<lambda>n. if n_id n = n_id row
                        then row\<lparr>n_title := p_title payload, n_content := p_content payload,
                                  n_date := p_date payload, n_has_photo := p_has_photo payload\<rparr>
                        else n) (circle_news (working ?s))\<rparr>\<rparr>))"
    from select_circle_news_Some [OF sel] have "row \<in> set (circle_news d)" by (simp add: w)
    then have "n_circle_id row \<in> set (map c_id (circles d))"
      using ok by (auto simp: news_fk_ok_def list_all_iff)
    then show ?thesis using ok
      by (auto simp: out db_commit_def w news_fk_ok_def list_all_iff)
  qed
qed

lemma news_fk_delete_news:
  assumes ok: "news_fk_ok d"
  shows "news_fk_ok (committed (snd (delete_circle_news e cid nid (begin_request d))))"
  using ok
  by (auto simp: delete_circle_news_def Let_def db_rollback_def db_commit_def begin_request_def
      news_fk_ok_def list_all_iff split: option.splits sum.splits)

lemma news_fk_update_circle:
  assumes ok: "news_fk_ok d"
  shows "news_fk_ok (committed (snd (update_circle e cid payload (begin_request d))))"
proof (cases "db_get_circle (begin_request d) cid")
  case None
  then show ?thesis using ok by (simp add: update_circle_def begin_request_def)
next
  case (Some row)
  show ?thesis
  proof (cases "commit_raises e")
    case None
    then show ?thesis using ok Some
      by (simp add: update_circle_def Let_def db_commit_def begin_request_def news_fk_ok_def
          o_def cong: if_cong) (simp add: list_all_iff image_iff, force)
  next
    case (Some x)
    then show ?thesis using ok \<open>db_get_circle (begin_request d) cid = Some row\<close>
      by (cases x) (simp_all add: update_circle_def Let_def db_rollback_def begin_request_def)
  qed
qed

text \<open>
  C4 (amended). Starting from a database in which every news row belongs to a stored
  circle, that still holds after \<open>create_news\<close> when the circle of the request exists or
  the commit is rejected, after \<open>delete_circle\<close> when no news row belongs to the deleted
  circle or the commit is rejected, and after \<open>update_circle_news\<close>, \<open>delete_circle_news\<close>
  and \<open>update_circle\<close> always.
\<close>

theorem news_circle_reference_preserved:
  assumes "news_fk_ok d"
  shows "(cid \<in> c_id ` set (circles d) \<or> commit_raises e \<noteq> None \<longrightarrow>
            news_fk_ok (committed (snd (create_news e cid payload (begin_request d)))))
       \<and> (cid \<notin> n_circle_id ` set (circle_news d) \<or> commit_raises e \<noteq> None \<longrightarrow>
            news_fk_ok (committed (snd (delete_circle e cid (begin_request d)))))
       \<and> news_fk_ok (committed (snd (update_circle_news e cid nid payload (begin_request d))))
       \<and> news_fk_ok (committed (snd (delete_circle_news e cid nid (begin_request d))))
       \<and> news_fk_ok (committed (snd (update_circle e cid cpayload (begin_request d))))"
  using assms
  by (simp add: news_fk_create news_fk_delete_circle news_fk_update_news news_fk_delete_news
      news_fk_update_circle)

theorem news_circle_reference_preserved_witness:
  "news_fk_ok ex_news_db
   \<and> 1 \<in> c_id ` set (circles ex_news_db)
   \<and> news_fk_ok (committed (snd (create_news quiet_engine 1 ex_payload (begin_request ex_news_db))))
   \<and> 2 \<notin> n_circle_id ` set (circle_news ex_news_db)
   \<and> news_fk_ok (committed (snd (delete_circle quiet_engine 2 (begin_request ex_news_db))))"
proof -
  have ok: "news_fk_ok ex_news_db" by (simp add: news_fk_ok_def ex_defs)
  have a: "1 \<in> c_id ` set (circles ex_news_db)" by (simp add: ex_defs)
  have b: "2 \<notin> n_circle_id ` set (circle_news ex_news_db)" by (simp add: ex_defs)
  show ?thesis
    using ok a b
      news_circle_reference_preserved [OF ok, of 1 quiet_engine ex_payload]
      news_circle_reference_preserved [OF ok, of 2 quiet_engine]
    by blast
qed

text \<open>
  C4 as stated fails: \<open>delete_circle\<close> removes a circle and leaves its news rows, and
  \<open>create_news\<close>, which does not call \<open>ensure_circle_exists\<close>, stores a news row for a
  circle that does not exist, whenever the persistence layer accepts the commit.
\<close>

theorem handlers_break_news_circle_reference:
  "news_fk_ok ex_news_db
   \<and> fst (delete_circle quiet_engine 1 (begin_request ex_news_db)) = Inr ()
   \<and> \<not> news_fk_ok (committed (snd (delete_circle quiet_engine 1 (begin_request ex_news_db))))
   \<and> fst (create_news quiet_engine 7 (ex_payload\<lparr>p_circle_id := 7\<rparr>) (begin_request ex_news_db))
       = Inr (CircleNews (ex_payload\<lparr>p_circle_id := 7\<rparr>) 1000 2)
   \<and> \<not> news_fk_ok (committed (snd (create_news quiet_engine 7 (ex_payload\<lparr>p_circle_id := 7\<rparr>)
          (begin_request ex_news_db))))"
  by (simp add: news_fk_ok_def delete_circle_def db_get_circle_def create_news_def
      CircleNews_def next_id_def db_commit_def Let_def ex_defs)

section \<open>Properties of the news update\<close>

lemma validate_CircleNewsCreate_Inr:
  assumes "validate_CircleNewsCreate body = Inr payload"
  shows "b_circle_id body = Some (p_circle_id payload)"
    "b_title body = Some (p_title payload)" "b_date body = Some (p_date payload)"
    "p_content payload = (case b_content body of None \<Rightarrow> None | Some v \<Rightarrow> v)"
    "p_has_photo payload = (case b_has_photo body of None \<Rightarrow> False | Some v \<Rightarrow> v)"
  using assms
  by (auto simp: validate_CircleNewsCreate_def Let_def split: option.splits if_splits)

lemma update_circle_news_success:
  assumes "update_circle_news e cid nid payload db = (Inr row', db')"
  shows "\<exists>row. select_circle_news db cid nid = Inr (Some row)
      \<and> row' = row\<lparr>n_title := p_title payload, n_content := p_content payload,
                     n_date := p_date payload, n_has_photo := p_has_photo payload\<rparr>
      \<and> db' = db_commit (db\<lparr>working := (working db)\<lparr>circle_news :=
               map (\<lambda>n. if n_id n = n_id row then row' else n) (circle_news (working db))\<rparr>\<rparr>)"
  using assms
  by (auto simp: update_circle_news_def Let_def
      split: option.splits sum.splits db_exception.splits)

text \<open>
  C8 (amended). A successful \<^verbatim>\<open>PUT\<close> of a news item replaces \<open>title\<close>, \<open>date\<close>, \<open>content\<close>
  and \<open>has_photo\<close> of the stored row by the values of the validated body, where an omitted
  \<open>content\<close> becomes \<^verbatim>\<open>None\<close> and an omitted \<open>has_photo\<close> becomes \<^verbatim>\<open>False\<close>; \<open>id\<close>,
  \<open>circle_id\<close> and \<open>created_at\<close> keep their values, and no other row or table changes.
\<close>

theorem put_circle_news_replaces_fields:
  assumes "put_circle_news e cid nid body (begin_request d) = (Inr row', db')"
  shows "\<exists>row. row \<in> set (circle_news d) \<and> n_id row = nid \<and> n_circle_id row = cid
      \<and> b_title body = Some (n_title row') \<and> b_date body = Some (n_date row')
      \<and> n_content row' = (case b_content body of None \<Rightarrow> None | Some v \<Rightarrow> v)
      \<and> n_has_photo row' = (case b_has_photo body of None \<Rightarrow> False | Some v \<Rightarrow> v)
      \<and> n_id row' = n_id row \<and> n_circle_id row' = n_circle_id row
      \<and> n_created_at row' = n_created_at row
      \<and> circle_news (committed db')
          = map (\<lambda>n. if n_id n = nid then row' else n) (circle_news d)
      \<and> users (committed db') = users d \<and> circles (committed db') = circles d
      \<and> followed (committed db') = followed d
      \<and> user_schedules (committed db') = user_schedules d"
proof -
  from assms obtain payload where v: "validate_CircleNewsCreate body = Inr payload"
    and u: "update_circle_news e cid nid payload (begin_request d) = (Inr row', db')"
    by (auto simp: put_circle_news_def split: sum.splits)
  from update_circle_news_success [OF u] obtain row where
    sel: "select_circle_news (begin_request d) cid nid = Inr (Some row)"
    and r: "row' = row\<lparr>n_title := p_title payload, n_content := p_content payload,
                     n_date := p_date payload, n_has_photo := p_has_photo payload\<rparr>"
    and d': "db' = db_commit ((begin_request d)\<lparr>working := (working (begin_request d))\<lparr>circle_news :=
               map (\<lambda>n. if n_id n = n_id row then row' else n)
                 (circle_news (working (begin_request d)))\<rparr>\<rparr>)"
    by (elim exE conjE)
  note s = select_circle_news_Some [OF sel]
  note b = validate_CircleNewsCreate_Inr [OF v]
  have "row \<in> set (circle_news d)" using s(1) by (simp add: begin_request_def)
  moreover have "circle_news (committed db')
          = map (\<lambda>n. if n_id n = nid then row' else n) (circle_news d)"
    by (simp add: d' db_commit_def begin_request_def s(3))
  moreover have "users (committed db') = users d" "circles (committed db') = circles d"
    "followed (committed db') = followed d" "user_schedules (committed db') = user_schedules d"
    by (simp_all add: d' db_commit_def begin_request_def)
  ultimately show ?thesis
    using s(2,3) b by (intro exI [of _ row]) (simp add: r)
qed

text \<open>
  C8 as stated fails: a body that omits \<open>content\<close> and \<open>has_photo\<close> resets both on the
  stored row, and the \<open>photo_url\<close> it sends is not stored.
\<close>

theorem put_circle_news_resets_omitted_fields:
  "b_content ex_body = None \<and> b_has_photo ex_body = None
   \<and> b_photo_url ex_body = Some (Some ''/img/new.png'')
   \<and> n_content ex_news = Some ''room 3'' \<and> n_has_photo ex_news = True
   \<and> n_photo_url ex_news = Some ''/img/old.png''
   \<and> put_circle_news quiet_engine 1 1 ex_body (begin_request ex_news_db)
      = (Inr (ex_news\<lparr>n_title := ''party'', n_date := 20001, n_content := None,
                       n_has_photo := False\<rparr>),
         begin_request (ex_news_db\<lparr>circle_news :=
           [ex_news\<lparr>n_title := ''party'', n_date := 20001, n_content := None,
                     n_has_photo := False\<rparr>]\<rparr>))"
  by (simp add: put_circle_news_def validate_CircleNewsCreate_def update_circle_news_def
      ensure_circle_exists_def select_circle_news_def scalar_one_or_none_def truthy_int_def
      db_commit_def Let_def ex_defs)

theorem put_circle_news_replaces_fields_witness:
  "put_circle_news quiet_engine 1 1 ex_body (begin_request ex_news_db)
      = (Inr (ex_news\<lparr>n_title := ''party'', n_date := 20001, n_content := None,
                       n_has_photo := False\<rparr>),
         begin_request (ex_news_db\<lparr>circle_news :=
           [ex_news\<lparr>n_title := ''party'', n_date := 20001, n_content := None,
                     n_has_photo := False\<rparr>]\<rparr>))
   \<and> circle_news (committed (begin_request (ex_news_db\<lparr>circle_news :=
           [ex_news\<lparr>n_title := ''party'', n_date := 20001, n_content := None,
                     n_has_photo := False\<rparr>]\<rparr>)))
      = map (\<lambda>n. if n_id n = 1
                  then ex_news\<lparr>n_title := ''party'', n_date := 20001, n_content := None,
                               n_has_photo := False\<rparr>
                  else n) (circle_news ex_news_db)"
proof -
  have run: "put_circle_news quiet_engine 1 1 ex_body (begin_request ex_news_db)
      = (Inr (ex_news\<lparr>n_title := ''party'', n_date := 20001, n_content := None,
                       n_has_photo := False\<rparr>),
         begin_request (ex_news_db\<lparr>circle_news :=
           [ex_news\<lparr>n_title := ''party'', n_date := 20001, n_content := None,
                     n_has_photo := False\<rparr>]\<rparr>))"
    by (simp add: put_circle_news_def validate_CircleNewsCreate_def update_circle_news_def
      ensure_circle_exists_def select_circle_news_def scalar_one_or_none_def truthy_int_def
      db_commit_def Let_def ex_defs)
  from put_circle_news_replaces_fields [OF run] show ?thesis
    using run by blast
qed

end
